theory Spec2Isabelle
  imports Main
begin

section \<open>JavaScript values, faults and callable members\<close>

text \<open>
  The component of \<^verbatim>\<open>frontend/src/components/DashboardHeader.jsx\<close> builds a React element
  tree and hands one closure, \<^verbatim>\<open>() => router.refresh()\<close>, to a button. What the closure does
  is decided by the object that \<^verbatim>\<open>useRouter()\<close> returned, so the model needs a small part of
  JavaScript: plain data, objects with members, calls of a member, and the faults such a
  call raises.
\<close>

datatype jsdata = JUndefined | JNull | JBool bool | JNumber int | JString string

text \<open>
  A fault is a thrown exception. The two \<^verbatim>\<open>TypeError\<close>s are the ones the runtime raises for
  the expression \<^verbatim>\<open>o.m()\<close>: \<open>NullishReceiver v m\<close> when \<^verbatim>\<open>o\<close> is \<^verbatim>\<open>undefined\<close> or \<^verbatim>\<open>null\<close>
  (the member cannot be read), \<open>NotAFunction m\<close> when the member read is not callable.
  \<open>Thrown v\<close> is whatever a called function throws by itself.
\<close>

datatype fault = NotAFunction string | NullishReceiver jsdata string | Thrown jsdata

text \<open>
  Effects are explicit: a callable takes its argument list and the state of the host
  (type \<open>'h\<close>, whatever the embedding application keeps) and returns either a fault or a
  value, together with the host state it leaves behind.
\<close>

type_synonym 'h outcome = "(fault + jsdata) \<times> 'h"

type_synonym 'h callable = "jsdata list \<Rightarrow> 'h \<Rightarrow> 'h outcome"

datatype 'h member = Fn "'h callable" | Datum jsdata

datatype 'h jsref = Obj "string \<rightharpoonup> 'h member" | Prim jsdata

text \<open>
  The call expression \<^verbatim>\<open>o.m(args)\<close>. A member that is absent reads as \<^verbatim>\<open>undefined\<close>, and so
  is not callable. Only the member name \<^verbatim>\<open>refresh\<close> is ever called by the component, which no
  primitive value has, so a primitive receiver other than \<^verbatim>\<open>undefined\<close> and \<^verbatim>\<open>null\<close> has
  no callable member here. A failed call leaves the host state as it was.
\<close>

fun call_method :: "'h jsref \<Rightarrow> string \<Rightarrow> jsdata list \<Rightarrow> 'h \<Rightarrow> 'h outcome" where
  "call_method (Obj ms) name args h =
     (case ms name of
        Some (Fn f) \<Rightarrow> f args h
      | Some (Datum v) \<Rightarrow> (Inl (NotAFunction name), h)
      | None \<Rightarrow> (Inl (NotAFunction name), h))"
| "call_method (Prim v) name args h =
     (if v = JUndefined \<or> v = JNull then (Inl (NullishReceiver v name), h)
      else (Inl (NotAFunction name), h))"

section \<open>React elements\<close>

text \<open>
  The element types that occur in the JSX of the component: the two host elements and
  the three imported components (\<^verbatim>\<open>next/image\<close>, \<^verbatim>\<open>@/components/ui/button\<close>,
  \<^verbatim>\<open>lucide-react\<close>).
\<close>

datatype elem = Div | H1 | Image | Button | RefreshCw

text \<open>
  An attribute value is a string literal, a number in braces, or a function. An event
  handler receives the arguments of the dispatch (the event object) and acts on the host.
\<close>

datatype 'h attr = StrAttr string | NumAttr int | Handler "'h callable"

datatype 'h vnode = Element elem "(string \<times> 'h attr) list" "'h vnode list" | TextNode string

section \<open>The module\<close>

text \<open>
  \<^verbatim>\<open>const montserrat = Montserrat({subsets: ["latin"], weight: ["400", "700"]})\<close> is a
  module-level constant made by \<^verbatim>\<open>next/font/google\<close>; the component reads its \<^verbatim>\<open>className\<close>
  only. The generated class name is not part of the repository, so the constant is a
  parameter of the model.
\<close>

record font =
  className :: string

text \<open>
  The rendering context is what the hooks read. \<^verbatim>\<open>useRouter\<close> of \<^verbatim>\<open>next/navigation\<close>
  returns the router object the application mounted; the component does nothing with the
  context but this one read, so any further content of the context is left open (the
  record is extensible).

  \<open>useRouter\<close> below is the value the hook returns when it returns. The hook does not
  return when no router is mounted: for the context value \<^verbatim>\<open>null\<close> (\<open>Prim JNull\<close>) it
  throws, and the component has rendered nothing. That branch is \<open>useRouter_call\<close>
  further down; every statement about a rendered tree is made for a context whose
  router is not \<open>Prim JNull\<close>.
\<close>

record 'h react_context =
  app_router :: "'h jsref"

definition useRouter :: "('h, 'z) react_context_scheme \<Rightarrow> 'h jsref" where
  "useRouter ctx = app_router ctx"

text \<open>
  \<^verbatim>\<open>export function DashboardHeader() { const router = useRouter(); return (...); }\<close>

  The function declares no parameter: the props object React calls it with (last
  argument of the model) is dropped at the call. The JSX is translated element by
  element, attributes in source order, JSX text with its surrounding line breaks
  trimmed as the JSX rules do. The handler is the arrow function
  \<^verbatim>\<open>() => router.refresh()\<close>: it ignores what it is called with, calls the member
  \<^verbatim>\<open>refresh\<close> of the router with an empty argument list and, having an expression body,
  returns what that call returns.

  \<open>DashboardHeader\<close> is the tree the function returns once the hook has returned the
  router. The call as a whole, with the hook's throw and the host state explicit, is
  \<open>DashboardHeader_call\<close> further down.
\<close>

definition DashboardHeader ::
  "font \<Rightarrow> ('h, 'z) react_context_scheme \<Rightarrow> (string \<rightharpoonup> 'h member) \<Rightarrow> 'h vnode" where
  "DashboardHeader montserrat ctx props =
     (let router = useRouter ctx in
      Element Div
        [(''className'',
          StrAttr (''flex items-center justify-between pb-4 '' @ className montserrat))]
        [Element Div [(''className'', StrAttr ''flex items-center w-fit gap-x-4'')]
           [Element Image
              [(''src'', StrAttr ''/logo.png''), (''height'', NumAttr 80),
               (''width'', NumAttr 80), (''alt'', StrAttr ''Logo'')] [],
            Element H1 [(''className'', StrAttr ''text-2xl font-bold'')]
              [TextNode ''Aerosports TV control'']],
         Element Button
           [(''onClick'', Handler (\<lambda>event. call_method router ''refresh'' []))]
           [Element RefreshCw [(''className'', StrAttr ''h-3 w-4 mr-2 justify-end'')] [],
            TextNode ''Refresh All'']])"

section \<open>Reading a rendered tree\<close>

text \<open>
  Queries on a rendered tree, as a test of the component would make them: all elements
  of a type in document order, the one element of a type, an attribute of an element,
  the text an element contains.
\<close>

fun find_all :: "elem \<Rightarrow> 'h vnode \<Rightarrow> 'h vnode list" where
  "find_all e (TextNode s) = []"
| "find_all e (Element e' attrs children) =
     (if e' = e then [Element e' attrs children] else []) @ concat (map (find_all e) children)"

definition the_element :: "elem \<Rightarrow> 'h vnode \<Rightarrow> 'h vnode option" where
  "the_element e t = (case find_all e t of [n] \<Rightarrow> Some n | _ \<Rightarrow> None)"

fun attribute :: "string \<Rightarrow> 'h vnode \<Rightarrow> 'h attr option" where
  "attribute a (TextNode s) = None"
| "attribute a (Element e attrs children) = map_of attrs a"

fun text_of :: "'h vnode \<Rightarrow> string" where
  "text_of (TextNode s) = s"
| "text_of (Element e attrs children) = concat (map text_of children)"

definition rendered_title :: "'h vnode \<Rightarrow> string option" where
  "rendered_title t = map_option text_of (the_element H1 t)"

definition logo_attribute :: "string \<Rightarrow> 'h vnode \<Rightarrow> 'h attr option" where
  "logo_attribute a t = Option.bind (the_element Image t) (attribute a)"

definition button_label :: "'h vnode \<Rightarrow> string option" where
  "button_label t = map_option text_of (the_element Button t)"

definition button_icons :: "'h vnode \<Rightarrow> nat" where
  "button_icons t =
     (case the_element Button t of None \<Rightarrow> 0 | Some b \<Rightarrow> length (find_all RefreshCw b))"

definition onClick_of :: "'h vnode \<Rightarrow> 'h callable option" where
  "onClick_of t =
     (case Option.bind (the_element Button t) (attribute ''onClick'') of
        Some (Handler k) \<Rightarrow> Some k
      | _ \<Rightarrow> None)"

section \<open>Activating the refresh control\<close>

text \<open>
  Modelled from the spec: \<^verbatim>\<open>Button\<close> of \<^verbatim>\<open>@/components/ui/button\<close> is not among the
  sources. The specification describes it as the one actionable control of the header,
  ``a control that, when activated, invokes'' what it was wired to: an activation calls the
  \<^verbatim>\<open>onClick\<close> handler the button was given, with the event as argument; a button that was
  given no handler does nothing. What the handler returns or throws is handed on to
  whoever dispatched the activation.
\<close>

definition activate :: "'h vnode \<Rightarrow> jsdata list \<Rightarrow> 'h \<Rightarrow> 'h outcome" where
  "activate t event h =
     (case onClick_of t of Some k \<Rightarrow> k event h | None \<Rightarrow> (Inr JUndefined, h))"

text \<open>
  A sequence of activations of one rendered tree, one event after the other. Each
  activation is a dispatch of its own: it starts in the host state the previous one left,
  and a fault in one does not prevent the later ones. The outcomes are collected in
  the order of the activations.
\<close>

fun activations :: "'h vnode \<Rightarrow> jsdata list list \<Rightarrow> 'h \<Rightarrow> (fault + jsdata) list \<times> 'h" where
  "activations t [] h = ([], h)"
| "activations t (event # events) h =
     (case activate t event h of
        (r, h') \<Rightarrow> (case activations t events h' of (rs, h'') \<Rightarrow> (r # rs, h'')))"

text \<open>
  The reference behaviour the claims compare with: calling a capability \<open>n\<close> times in a
  row with no arguments, each call in the state left by the one before.
\<close>

fun invocations :: "'h callable \<Rightarrow> nat \<Rightarrow> 'h \<Rightarrow> (fault + jsdata) list \<times> 'h" where
  "invocations f 0 h = ([], h)"
| "invocations f (Suc n) h =
     (case f [] h of
        (r, h') \<Rightarrow> (case invocations f n h' of (rs, h'') \<Rightarrow> (r # rs, h'')))"

text \<open>
  A spy around a capability, as a test double: it does what the capability does and
  appends the argument list of each call it receives to a log kept beside the host state.
  The length of the log counts the calls, its entries show what was passed.
\<close>

definition spy :: "'h callable \<Rightarrow> (jsdata list list \<times> 'h) callable" where
  "spy f args s =
     (case s of (log, h) \<Rightarrow> (case f args h of (r, h') \<Rightarrow> (r, (log @ [args], h'))))"

text \<open>
  A capability that acts on one part of the host state only: the state is a pair of
  what the router's reload owns and everything else, and the second part is left alone.
\<close>

definition within :: "'a callable \<Rightarrow> ('a \<times> 'b) callable" where
  "within f args s = (case s of (a, b) \<Rightarrow> (case f args a of (r, a') \<Rightarrow> (r, (a', b))))"

section \<open>The call of the component\<close>

text \<open>
  The hook as it is called. \<^verbatim>\<open>next/navigation\<close> is not part of the repository; its
  \<^verbatim>\<open>useRouter\<close> reads the router context and, when the value is \<^verbatim>\<open>null\<close>, throws an
  \<^verbatim>\<open>Error\<close> with the message below. It is a read: the host state is handed on as it
  came.
\<close>

definition router_not_mounted :: fault where
  "router_not_mounted = Thrown (JString ''invariant expected app router to be mounted'')"

definition useRouter_call ::
  "('h, 'z) react_context_scheme \<Rightarrow> 'h \<Rightarrow> (fault + 'h jsref) \<times> 'h" where
  "useRouter_call ctx h =
     (if app_router ctx = Prim JNull then (Inl router_not_mounted, h)
      else (Inr (useRouter ctx), h))"

text \<open>
  The call \<^verbatim>\<open>DashboardHeader(props)\<close> as React makes it, with the host state threaded
  through the statements of the body: \<^verbatim>\<open>const router = useRouter()\<close> first, whose throw
  leaves the function at once (there is no \<^verbatim>\<open>try\<close> around it); then the \<^verbatim>\<open>return\<close> of the
  tree, which calls nothing.
\<close>

definition DashboardHeader_call ::
  "font \<Rightarrow> ('h, 'z) react_context_scheme \<Rightarrow> (string \<rightharpoonup> 'h member) \<Rightarrow> 'h \<Rightarrow>
     (fault + 'h vnode) \<times> 'h" where
  "DashboardHeader_call montserrat ctx props h =
     (case useRouter_call ctx h of
        (Inl e, h') \<Rightarrow> (Inl e, h')
      | (Inr router, h') \<Rightarrow> (Inr (DashboardHeader montserrat ctx props), h'))"

section \<open>The lifetime of a header on a page\<close>

text \<open>
  The host of the component is React. Of a page that holds the header the model keeps
  the tree on screen (none before the first render, and none once a render has
  thrown), the fault an error boundary around the header has caught, the faults
  reported as uncaught errors, and the host state.

  React, not the repository, decides where a fault goes, by its documented rule: an
  error boundary catches what is thrown while a component renders; what an event
  handler throws is not given to any boundary, it is reported as an uncaught error and
  the tree stays mounted.
\<close>

record 'h page =
  screen :: "'h vnode option"
  boundary :: "fault option"
  uncaught :: "fault list"
  host :: "'h"

datatype 'h event = Render "string \<rightharpoonup> 'h member" | Click "jsdata list"

fun is_Click :: "'h event \<Rightarrow> bool" where
  "is_Click (Click event) = True"
| "is_Click (Render props) = False"

fun step ::
  "font \<Rightarrow> ('h, 'z) react_context_scheme \<Rightarrow> 'h event \<Rightarrow> 'h page \<Rightarrow> 'h page" where
  "step montserrat ctx (Render props) s =
     (case DashboardHeader_call montserrat ctx props (host s) of
        (Inl e, h') \<Rightarrow> s\<lparr>screen := None, boundary := Some e, host := h'\<rparr>
      | (Inr t, h') \<Rightarrow> s\<lparr>screen := Some t, host := h'\<rparr>)"
| "step montserrat ctx (Click event) s =
     (case screen s of
        None \<Rightarrow> s
      | Some t \<Rightarrow>
          (case activate t event (host s) of
             (Inl e, h') \<Rightarrow> s\<lparr>uncaught := uncaught s @ [e], host := h'\<rparr>
           | (Inr v, h') \<Rightarrow> s\<lparr>host := h'\<rparr>))"

fun lifetime ::
  "font \<Rightarrow> ('h, 'z) react_context_scheme \<Rightarrow> 'h event list \<Rightarrow> 'h page \<Rightarrow> 'h page" where
  "lifetime montserrat ctx [] s = s"
| "lifetime montserrat ctx (e # es) s = lifetime montserrat ctx es (step montserrat ctx e s)"

section \<open>Concrete inputs\<close>

text \<open>
  A host whose state is a counter of reloads, with three capabilities: one that
  reloads and returns nothing, one that returns a value, one that fails.
\<close>

definition reload :: "nat callable" where
  "reload args n = (Inr JUndefined, Suc n)"

definition reload_count :: "nat callable" where
  "reload_count args n = (Inr (JNumber (int n)), Suc n)"


definition font0 :: font where
  "font0 = \<lparr>className = ''__className_0''\<rparr>"

definition router_with :: "'h callable \<Rightarrow> 'h react_context" where
  "router_with f = \<lparr>app_router = Obj [''refresh'' \<mapsto> Fn f]\<rparr>"


definition other_context :: "(nat, bool) react_context_scheme" where
  "other_context = \<lparr>app_router = Obj [''refresh'' \<mapsto> Fn reload], \<dots> = True\<rparr>"

definition empty_title_props :: "string \<rightharpoonup> nat member" where
  "empty_title_props = [''title'' \<mapsto> Datum (JString [])]"

definition no_router :: "nat react_context" where
  "no_router = \<lparr>app_router = Prim JNull\<rparr>"

definition blank_page :: "nat page" where
  "blank_page = \<lparr>screen = None, boundary = None, uncaught = [], host = 0\<rparr>"


definition no_props :: "string \<rightharpoonup> 'h member" where
  "no_props = Map.empty"

definition arena2_props :: "string \<rightharpoonup> nat member" where
  "arena2_props =
     [''title'' \<mapsto> Datum (JString ''Arena 2 Control''),
      ''logoSource'' \<mapsto> Datum (JString ''/arena2-logo.png'')]"

section \<open>Facts about the rendered tree\<close>

lemma DashboardHeader_props: "DashboardHeader m ctx p = DashboardHeader m ctx p'"
  by (simp add: DashboardHeader_def)

lemma title_DashboardHeader:
  "rendered_title (DashboardHeader m ctx p) = Some ''Aerosports TV control''"
  by (simp add: rendered_title_def the_element_def DashboardHeader_def)

lemma logo_DashboardHeader:
  "logo_attribute a (DashboardHeader m ctx p) =
     map_of [(''src'', StrAttr ''/logo.png''), (''height'', NumAttr 80),
             (''width'', NumAttr 80), (''alt'', StrAttr ''Logo'')] a"
  by (simp add: logo_attribute_def the_element_def DashboardHeader_def)

lemma label_DashboardHeader:
  "button_label (DashboardHeader m ctx p) = Some ''Refresh All''"
  by (simp add: button_label_def the_element_def DashboardHeader_def)

lemma icons_DashboardHeader: "button_icons (DashboardHeader m ctx p) = 1"
  by (simp add: button_icons_def the_element_def DashboardHeader_def)

lemma onClick_DashboardHeader:
  "onClick_of (DashboardHeader m ctx p) =
     Some (\<lambda>event. call_method (app_router ctx) ''refresh'' [])"
  by (simp add: onClick_of_def the_element_def DashboardHeader_def useRouter_def)

lemma activate_DashboardHeader:
  "activate (DashboardHeader m ctx p) event h = call_method (app_router ctx) ''refresh'' [] h"
  by (simp add: activate_def onClick_DashboardHeader)

lemma activate_refresh:
  assumes "app_router ctx = Obj ms" and "ms ''refresh'' = Some (Fn f)"
  shows "activate (DashboardHeader m ctx p) event h = f [] h"
  using assms by (simp add: activate_DashboardHeader)

lemma DashboardHeader_call_mounted:
  assumes "app_router ctx \<noteq> Prim JNull"
  shows "DashboardHeader_call m ctx p h = (Inr (DashboardHeader m ctx p), h)"
  using assms by (simp add: DashboardHeader_call_def useRouter_call_def)

lemma DashboardHeader_call_unmounted:
  assumes "app_router ctx = Prim JNull"
  shows "DashboardHeader_call m ctx p h = (Inl router_not_mounted, h)"
  using assms by (simp add: DashboardHeader_call_def useRouter_call_def)

lemma unmounted_render_reaches_boundary:
  "step font0 no_router (Render no_props) blank_page =
     \<lparr>screen = None, boundary = Some router_not_mounted, uncaught = [], host = 0\<rparr>"
  by (simp add: DashboardHeader_call_unmounted no_router_def blank_page_def)

lemma step_Render_mounted:
  assumes "app_router ctx \<noteq> Prim JNull"
  shows "step m ctx (Render p) s = s\<lparr>screen := Some (DashboardHeader m ctx p)\<rparr>"
  using assms by (simp add: DashboardHeader_call_mounted)

lemma step_Render_again:
  assumes "app_router ctx \<noteq> Prim JNull" and "screen s = Some (DashboardHeader m ctx p)"
  shows "step m ctx (Render p') s = s"
proof -
  have "step m ctx (Render p') s = s\<lparr>screen := Some (DashboardHeader m ctx p')\<rparr>"
    using assms(1) by (rule step_Render_mounted)
  also have "DashboardHeader m ctx p' = DashboardHeader m ctx p"
    by (rule DashboardHeader_props)
  also have "s\<lparr>screen := Some (DashboardHeader m ctx p)\<rparr> = s"
    using assms(2) by simp
  finally show ?thesis .
qed

lemma step_Click_screen: "screen (step m ctx (Click event) s) = screen s"
  by (simp split: option.split prod.split sum.split)

lemma lifetime_clicks_only:
  assumes "app_router ctx \<noteq> Prim JNull"
  shows "screen s = Some (DashboardHeader m ctx p) \<Longrightarrow>
         lifetime m ctx es s = lifetime m ctx (filter is_Click es) s"
proof (induction es arbitrary: s)
  case Nil
  show ?case by simp
next
  case (Cons e es)
  show ?case
  proof (cases e)
    case (Render p')
    have "step m ctx (Render p') s = s"
      using assms Cons.prems by (rule step_Render_again)
    with Render Cons.IH [OF Cons.prems] show ?thesis by simp
  next
    case (Click event)
    have "screen (step m ctx (Click event) s) = Some (DashboardHeader m ctx p)"
      using Cons.prems by (simp only: step_Click_screen)
    from Cons.IH [OF this] Click show ?thesis by simp
  qed
qed

section \<open>The refresh trigger\<close>

text \<open>
  C1. One activation of the refresh control calls the router's \<^verbatim>\<open>refresh\<close> exactly once,
  inside the activation, with no arguments, whatever the event was and whatever the log
  of earlier calls holds: with a spy around the capability, the log grows by the single
  entry \<open>[]\<close> (the empty argument list), the host is left as one call of the capability
  leaves it, and this is so also when the call fails (no retry) and when calls were
  logged before (no suppression).
\<close>

theorem activation_invokes_refresh_once:
  assumes "app_router ctx = Obj ms" and "ms ''refresh'' = Some (Fn (spy f))"
  shows "activate (DashboardHeader m ctx p) event (log, h) =
           (fst (f [] h), (log @ [[]], snd (f [] h)))"
proof -
  have "activate (DashboardHeader m ctx p) event (log, h) = spy f [] (log, h)"
    using assms by (rule activate_refresh)
  then show ?thesis by (simp add: spy_def split: prod.split)
qed

theorem activation_invokes_refresh_once_witness:
  "app_router (router_with (spy reload)) = Obj [''refresh'' \<mapsto> Fn (spy reload)] \<and>
   [''refresh'' \<mapsto> Fn (spy reload)] ''refresh'' = Some (Fn (spy reload)) \<and>
   activate (DashboardHeader font0 (router_with (spy reload)) no_props)
     [JString ''click''] ([[]], 1) = (Inr JUndefined, ([[], []], 2))"
proof -
  have r: "app_router (router_with (spy reload)) = Obj [''refresh'' \<mapsto> Fn (spy reload)]"
    by (simp add: router_with_def)
  have c: "[''refresh'' \<mapsto> Fn (spy reload)] ''refresh'' = Some (Fn (spy reload))"
    by simp
  show ?thesis
    using r c activation_invokes_refresh_once [OF r c, of font0 no_props "[JString ''click'']" "[[]]" 1]
    by (simp add: reload_def)
qed

text \<open>
  C2. A sequence of \<open>N\<close> activations calls the capability exactly \<open>N\<close> times, one call per
  activation and in their order: the outcomes of the activations are the outcomes of
  \<open>N\<close> successive calls, each made in the state the previous call left, and the spy's log
  grows by \<open>N\<close> entries. No activation is merged with another or dropped.
\<close>

theorem activations_invoke_refresh_in_order:
  assumes "app_router ctx = Obj ms" and "ms ''refresh'' = Some (Fn (spy f))"
  shows "activations (DashboardHeader m ctx p) events (log, h) =
           (fst (invocations f (length events) h),
            (log @ replicate (length events) [], snd (invocations f (length events) h)))"
proof (induction events arbitrary: log h)
  case Nil
  show ?case by simp
next
  case (Cons event events)
  have one: "activate (DashboardHeader m ctx p) event (log, h) = spy f [] (log, h)"
    using assms by (rule activate_refresh)
  obtain r h' where f: "f [] h = (r, h')"
    by (cases "f [] h")
  have "activations (DashboardHeader m ctx p) (event # events) (log, h) =
          (r # fst (invocations f (length events) h'),
           ((log @ [[]]) @ replicate (length events) [],
            snd (invocations f (length events) h')))"
    by (simp add: one spy_def f Cons.IH)
  also have "\<dots> = (fst (invocations f (length (event # events)) h),
                   (log @ replicate (length (event # events)) [],
                    snd (invocations f (length (event # events)) h)))"
    by (simp add: f split: prod.split)
  finally show ?case .
qed

theorem activations_invoke_refresh_in_order_witness:
  "app_router (router_with (spy reload_count)) = Obj [''refresh'' \<mapsto> Fn (spy reload_count)] \<and>
   [''refresh'' \<mapsto> Fn (spy reload_count)] ''refresh'' = Some (Fn (spy reload_count)) \<and>
   activations (DashboardHeader font0 (router_with (spy reload_count)) no_props)
     [[JString ''a''], [JString ''b''], [JString ''a'']] ([], 4) =
       ([Inr (JNumber 4), Inr (JNumber 5), Inr (JNumber 6)], ([[], [], []], 7))"
proof -
  have r: "app_router (router_with (spy reload_count)) =
             Obj [''refresh'' \<mapsto> Fn (spy reload_count)]"
    by (simp add: router_with_def)
  have c: "[''refresh'' \<mapsto> Fn (spy reload_count)] ''refresh'' = Some (Fn (spy reload_count))"
    by simp
  have n: "invocations reload_count (Suc (Suc (Suc 0))) 4 =
             ([Inr (JNumber 4), Inr (JNumber 5), Inr (JNumber 6)], 7)"
    by (simp add: reload_count_def)
  show ?thesis
    using r c n
      activations_invoke_refresh_in_order [OF r c, of font0 no_props
        "[[JString ''a''], [JString ''b''], [JString ''a'']]" "[]" 4]
    by (simp add: numeral_3_eq_3)
qed

section \<open>Rendering\<close>

text \<open>
  C3, as the specification states it, fails: the component has no display configuration.
  Rendered with the configuration \<^verbatim>\<open>{title: "Arena 2 Control", logoSource: "/arena2-logo.png"}\<close>
  the title is still the built-in one.
\<close>

theorem custom_title_counterexample:
  "rendered_title (DashboardHeader font0 (router_with reload) arena2_props) =
     Some ''Aerosports TV control'' \<and>
   rendered_title (DashboardHeader font0 (router_with reload) arena2_props) \<noteq>
     Some ''Arena 2 Control''"
  by (simp add: title_DashboardHeader)

text \<open>
  C3, amended. The component declares no parameter, so whatever configuration it is
  rendered with is ignored: wherever a router is mounted, the call returns the tree
  rendered with no props, the title and the logo source are the built-in ones, and the
  refresh capability is not taken from the caller either: the handler calls the
  \<^verbatim>\<open>refresh\<close> member of the router that the component itself obtained with
  \<^verbatim>\<open>useRouter()\<close>.
\<close>

theorem configuration_is_ignored:
  assumes "app_router ctx \<noteq> Prim JNull"
  shows "fst (DashboardHeader_call m ctx p h) = Inr (DashboardHeader m ctx no_props) \<and>
         DashboardHeader m ctx p = DashboardHeader m ctx no_props \<and>
         rendered_title (DashboardHeader m ctx p) = Some ''Aerosports TV control'' \<and>
         logo_attribute ''src'' (DashboardHeader m ctx p) = Some (StrAttr ''/logo.png'') \<and>
         activate (DashboardHeader m ctx p) event h =
           call_method (useRouter ctx) ''refresh'' [] h"
proof -
  have same: "DashboardHeader m ctx p = DashboardHeader m ctx no_props"
    by (rule DashboardHeader_props)
  have "fst (DashboardHeader_call m ctx p h) = Inr (DashboardHeader m ctx p)"
    using assms by (simp add: DashboardHeader_call_mounted)
  with same have "fst (DashboardHeader_call m ctx p h) = Inr (DashboardHeader m ctx no_props)"
    by simp
  moreover have "logo_attribute ''src'' (DashboardHeader m ctx p) = Some (StrAttr ''/logo.png'')"
    by (simp add: logo_DashboardHeader)
  moreover have "activate (DashboardHeader m ctx p) event h =
      call_method (useRouter ctx) ''refresh'' [] h"
    by (simp add: activate_DashboardHeader useRouter_def)
  moreover have "rendered_title (DashboardHeader m ctx p) = Some ''Aerosports TV control''"
    by (rule title_DashboardHeader)
  ultimately show ?thesis using same by blast
qed

theorem configuration_is_ignored_witness:
  "app_router (router_with reload) \<noteq> Prim JNull \<and>
   fst (DashboardHeader_call font0 (router_with reload) arena2_props 0) =
     Inr (DashboardHeader font0 (router_with reload) no_props) \<and>
   logo_attribute ''src'' (DashboardHeader font0 (router_with reload) arena2_props) =
     Some (StrAttr ''/logo.png'')"
proof -
  have r: "app_router (router_with reload) \<noteq> Prim JNull"
    by (simp add: router_with_def)
  show ?thesis
    using r configuration_is_ignored [where ctx = "router_with reload" and m = font0
        and p = arena2_props and h = 0 and event = "[]"]
    by blast
qed

text \<open>
  C4. Rendering is pure and idempotent. Wherever a router is mounted, a call of the
  component returns the tree and leaves the host state as it was, and the tree does not
  depend on the host state, so it is the same whatever happened between two renders.
  On the page, rendering twice is the same as rendering once; a render changes neither
  the host state nor what was reported or caught; and once the header is mounted, the
  page after any sequence of renders and activations is the page after the activations
  alone: the renders in between contribute nothing.

  (Each render makes a new closure for the handler; trees are compared by what their
  handlers do, not by the identity of the function objects.)
\<close>

theorem rendering_is_pure:
  assumes "app_router ctx \<noteq> Prim JNull"
  shows "DashboardHeader_call m ctx p h = (Inr (DashboardHeader m ctx p), h) \<and>
         fst (DashboardHeader_call m ctx p h') = fst (DashboardHeader_call m ctx p h) \<and>
         step m ctx (Render p) (step m ctx (Render p) s) = step m ctx (Render p) s \<and>
         host (step m ctx (Render p) s) = host s \<and>
         uncaught (step m ctx (Render p) s) = uncaught s \<and>
         boundary (step m ctx (Render p) s) = boundary s \<and>
         lifetime m ctx (Render p # es) s = lifetime m ctx (Render p # filter is_Click es) s"
proof -
  have call: "DashboardHeader_call m ctx p k = (Inr (DashboardHeader m ctx p), k)" for k
    using assms by (rule DashboardHeader_call_mounted)
  have once: "step m ctx (Render p) s = s\<lparr>screen := Some (DashboardHeader m ctx p)\<rparr>"
    using assms by (rule step_Render_mounted)
  have shown: "screen (step m ctx (Render p) s) = Some (DashboardHeader m ctx p)"
    unfolding once by simp
  have twice: "step m ctx (Render p) (step m ctx (Render p) s) = step m ctx (Render p) s"
    using assms shown by (rule step_Render_again)
  from shown have "lifetime m ctx es (step m ctx (Render p) s) =
      lifetime m ctx (filter is_Click es) (step m ctx (Render p) s)"
    by (rule lifetime_clicks_only [OF assms])
  then have life: "lifetime m ctx (Render p # es) s =
      lifetime m ctx (Render p # filter is_Click es) s"
    by simp
  have "fst (DashboardHeader_call m ctx p h') = fst (DashboardHeader_call m ctx p h)"
    by (simp add: call)
  moreover have "host (step m ctx (Render p) s) = host s"
    unfolding once by simp
  moreover have "uncaught (step m ctx (Render p) s) = uncaught s"
    unfolding once by simp
  moreover have "boundary (step m ctx (Render p) s) = boundary s"
    unfolding once by simp
  ultimately show ?thesis using call twice life by blast
qed

theorem rendering_is_pure_witness:
  "app_router (router_with reload) \<noteq> Prim JNull \<and>
   DashboardHeader_call font0 (router_with reload) no_props 7 =
     (Inr (DashboardHeader font0 (router_with reload) no_props), 7) \<and>
   lifetime font0 (router_with reload)
     [Render no_props, Click [], Render arena2_props, Render no_props, Click []] blank_page =
   lifetime font0 (router_with reload) [Render no_props, Click [], Click []] blank_page"
proof -
  have r: "app_router (router_with reload) \<noteq> Prim JNull"
    by (simp add: router_with_def)
  show ?thesis
    using r rendering_is_pure [where ctx = "router_with reload" and m = font0
        and p = no_props and h = 7 and h' = 7 and s = blank_page
        and es = "[Click [], Render arena2_props, Render no_props, Click []]"]
    by simp
qed

text \<open>
  C7. Wherever a router is mounted, a configuration whose title is missing, \<^verbatim>\<open>undefined\<close>
  or the empty string renders the default title \<^verbatim>\<open>Aerosports TV control\<close>, and nothing of
  the configuration reaches the screen as an error: the call returns a tree, the one
  rendered with no configuration at all.
\<close>

theorem empty_title_falls_back:
  assumes "app_router ctx \<noteq> Prim JNull"
    and "p ''title'' = None \<or> p ''title'' = Some (Datum JUndefined) \<or>
         p ''title'' = Some (Datum (JString []))"
  shows "fst (DashboardHeader_call m ctx p h) = Inr (DashboardHeader m ctx p) \<and>
         rendered_title (DashboardHeader m ctx p) = Some ''Aerosports TV control'' \<and>
         DashboardHeader m ctx p = DashboardHeader m ctx no_props"
proof -
  have "fst (DashboardHeader_call m ctx p h) = Inr (DashboardHeader m ctx p)"
    using assms(1) by (simp add: DashboardHeader_call_mounted)
  moreover have "rendered_title (DashboardHeader m ctx p) = Some ''Aerosports TV control''"
    by (rule title_DashboardHeader)
  moreover have "DashboardHeader m ctx p = DashboardHeader m ctx no_props"
    by (rule DashboardHeader_props)
  ultimately show ?thesis by blast
qed

theorem empty_title_falls_back_witness:
  "app_router (router_with reload) \<noteq> Prim JNull \<and>
   empty_title_props ''title'' = Some (Datum (JString [])) \<and>
   rendered_title (DashboardHeader font0 (router_with reload) empty_title_props) =
     Some ''Aerosports TV control''"
proof -
  have r: "app_router (router_with reload) \<noteq> Prim JNull"
    by (simp add: router_with_def)
  have a: "empty_title_props ''title'' = Some (Datum (JString []))"
    by (simp add: empty_title_props_def)
  then have t: "empty_title_props ''title'' = None \<or>
                empty_title_props ''title'' = Some (Datum JUndefined) \<or>
                empty_title_props ''title'' = Some (Datum (JString []))"
    by blast
  show ?thesis
    using r a t empty_title_falls_back [where p = empty_title_props and m = font0
        and ctx = "router_with reload" and h = 0]
    by blast
qed

text \<open>
  C8. Rendered with the default configuration (no props) where a router is mounted, the
  call returns a tree in which the logo has height 80 and width 80 and the title is the
  default title.
\<close>

theorem default_render:
  assumes "app_router ctx \<noteq> Prim JNull"
  shows "fst (DashboardHeader_call m ctx no_props h) = Inr (DashboardHeader m ctx no_props) \<and>
         logo_attribute ''height'' (DashboardHeader m ctx no_props) = Some (NumAttr 80) \<and>
         logo_attribute ''width'' (DashboardHeader m ctx no_props) = Some (NumAttr 80) \<and>
         rendered_title (DashboardHeader m ctx no_props) = Some ''Aerosports TV control''"
  using assms
  by (simp add: DashboardHeader_call_mounted logo_DashboardHeader title_DashboardHeader)

theorem default_render_witness:
  "app_router (router_with reload) \<noteq> Prim JNull \<and>
   logo_attribute ''height'' (DashboardHeader font0 (router_with reload) no_props) =
     Some (NumAttr 80) \<and>
   logo_attribute ''width'' (DashboardHeader font0 (router_with reload) no_props) =
     Some (NumAttr 80) \<and>
   rendered_title (DashboardHeader font0 (router_with reload) no_props) =
     Some ''Aerosports TV control''"
proof -
  have r: "app_router (router_with reload) \<noteq> Prim JNull"
    by (simp add: router_with_def)
  show ?thesis
    using r default_render [where ctx = "router_with reload" and m = font0 and h = 0]
    by blast
qed

text \<open>
  C9. What the header shows is fixed. In every render in which a router is mounted the
  title is \<^verbatim>\<open>Aerosports TV control\<close>, the logo is \<^verbatim>\<open>/logo.png\<close> at 80 by 80, the button is
  labelled \<^verbatim>\<open>Refresh All\<close> and holds one refresh icon; and two renders whose contexts
  provide the same router yield the same tree, whatever props they were given and
  whatever else the contexts hold.
\<close>

theorem appearance_is_constant:
  assumes "app_router ctx \<noteq> Prim JNull" and "app_router ctx = app_router ctx'"
  shows "fst (DashboardHeader_call m ctx p h) = fst (DashboardHeader_call m ctx' p' h') \<and>
         fst (DashboardHeader_call m ctx p h) = Inr (DashboardHeader m ctx p) \<and>
         DashboardHeader m ctx p = DashboardHeader m ctx' p' \<and>
         rendered_title (DashboardHeader m ctx p) = Some ''Aerosports TV control'' \<and>
         logo_attribute ''src'' (DashboardHeader m ctx p) = Some (StrAttr ''/logo.png'') \<and>
         logo_attribute ''height'' (DashboardHeader m ctx p) = Some (NumAttr 80) \<and>
         logo_attribute ''width'' (DashboardHeader m ctx p) = Some (NumAttr 80) \<and>
         button_label (DashboardHeader m ctx p) = Some ''Refresh All'' \<and>
         button_icons (DashboardHeader m ctx p) = 1"
proof -
  have same: "DashboardHeader m ctx p = DashboardHeader m ctx' p'"
    using assms(2) by (simp add: DashboardHeader_def useRouter_def)
  have c: "fst (DashboardHeader_call m ctx p h) = Inr (DashboardHeader m ctx p)"
    using assms(1) by (simp add: DashboardHeader_call_mounted)
  have "app_router ctx' \<noteq> Prim JNull"
    using assms by simp
  then have "fst (DashboardHeader_call m ctx' p' h') = Inr (DashboardHeader m ctx' p')"
    by (simp add: DashboardHeader_call_mounted)
  with c same have "fst (DashboardHeader_call m ctx p h) = fst (DashboardHeader_call m ctx' p' h')"
    by simp
  with c same show ?thesis
    by (simp add: title_DashboardHeader logo_DashboardHeader label_DashboardHeader
        icons_DashboardHeader)
qed

theorem appearance_is_constant_witness:
  "app_router (router_with reload) \<noteq> Prim JNull \<and>
   app_router (router_with reload) = app_router other_context \<and>
   DashboardHeader font0 (router_with reload) no_props =
     DashboardHeader font0 other_context arena2_props \<and>
   button_label (DashboardHeader font0 (router_with reload) no_props) = Some ''Refresh All''"
proof -
  have n: "app_router (router_with reload) \<noteq> Prim JNull"
    by (simp add: router_with_def)
  have r: "app_router (router_with reload) = app_router other_context"
    by (simp add: router_with_def other_context_def)
  show ?thesis
    using n r appearance_is_constant [where ctx = "router_with reload" and ctx' = other_context
        and m = font0 and p = no_props and p' = arena2_props and h = 0 and h' = 1]
    by blast
qed

section \<open>Faults\<close>







section \<open>The handler and the rest of the host\<close>

text \<open>
  C10, as stated, fails in one point: the handler does not discard what
  \<^verbatim>\<open>router.refresh()\<close> returns. The arrow function has an expression body, so the value of
  the call is the value of the handler. With a capability that returns the number of
  reloads made so far, the handler returns that number, not \<^verbatim>\<open>undefined\<close>.
\<close>

theorem handler_return_counterexample:
  "fst (activate (DashboardHeader font0 (router_with reload_count) no_props) [] 5) =
     Inr (JNumber 5) \<and>
   fst (activate (DashboardHeader font0 (router_with reload_count) no_props) [] 5) \<noteq>
     Inr JUndefined"
  by (simp add: activate_DashboardHeader router_with_def reload_count_def)

text \<open>
  C10, amended. The handler performs the call of \<^verbatim>\<open>router.refresh\<close> and nothing else: it
  is the function that ignores the event and calls the capability with no arguments.
  Its outcome is the outcome of that call, handed back unchanged to whoever dispatched
  the activation. With a capability confined to its own part of the host state, an
  activation makes exactly one call (one entry \<open>[]\<close> in the spy's log) and leaves
  everything else in the host as it was.
\<close>

theorem handler_only_calls_refresh:
  assumes "app_router ctx = Obj ms" and "ms ''refresh'' = Some (Fn (within (spy f)))"
  shows "onClick_of (DashboardHeader m ctx p) = Some (\<lambda>event. within (spy f) []) \<and>
         activate (DashboardHeader m ctx p) event ((log, h), rest) =
           (fst (f [] h), ((log @ [[]], snd (f [] h)), rest))"
proof
  show "onClick_of (DashboardHeader m ctx p) = Some (\<lambda>event. within (spy f) [])"
    using assms by (simp add: onClick_DashboardHeader fun_eq_iff)
  have "activate (DashboardHeader m ctx p) event ((log, h), rest) =
          within (spy f) [] ((log, h), rest)"
    using assms by (rule activate_refresh)
  then show "activate (DashboardHeader m ctx p) event ((log, h), rest) =
      (fst (f [] h), ((log @ [[]], snd (f [] h)), rest))"
    by (simp add: within_def spy_def split: prod.split)
qed

theorem handler_only_calls_refresh_witness:
  "app_router (router_with (within (spy reload_count))) =
     Obj [''refresh'' \<mapsto>
       (Fn (within (spy reload_count)) :: ((jsdata list list \<times> nat) \<times> string) member)] \<and>
   [''refresh'' \<mapsto>
       (Fn (within (spy reload_count)) :: ((jsdata list list \<times> nat) \<times> string) member)]
     ''refresh'' = Some (Fn (within (spy reload_count))) \<and>
   activate (DashboardHeader font0 (router_with (within (spy reload_count))) no_props)
     [JString ''click''] (([], 2), ''playlist'') =
       (Inr (JNumber 2), (([[]], 3), ''playlist''))"
proof -
  have r: "app_router (router_with (within (spy reload_count))) =
             Obj [''refresh'' \<mapsto>
               (Fn (within (spy reload_count)) ::
                 ((jsdata list list \<times> nat) \<times> string) member)]"
    by (simp add: router_with_def)
  have c: "[''refresh'' \<mapsto>
               (Fn (within (spy reload_count)) ::
                 ((jsdata list list \<times> nat) \<times> string) member)] ''refresh'' =
             Some (Fn (within (spy reload_count)))"
    by simp
  show ?thesis
    using r c
      handler_only_calls_refresh [OF r c, of font0 no_props "[JString ''click'']" "[]" 2
        "''playlist''"]
    by (simp add: reload_count_def)
qed

end
